theory Spec2Isabelle
  imports Main
begin

section \<open>Values, assertion failures and promises\<close>

text \<open>
  The checks of \<^verbatim>\<open>src/check/load/index.ts\<close> are asynchronous functions over a page
  handle and a response handle of the browser automation framework. The values the
  assertions compare are booleans, integral numbers and strings.
\<close>

datatype jsval = JBool bool | JNum int | JStr string

text \<open>
  A failed \<^verbatim>\<open>expect\<close> throws an error that carries the custom message given to
  \<^verbatim>\<open>expect\<close> (when there is one), the matcher and the two values. A failed
  \<^verbatim>\<open>toPass\<close> carries its custom message and the last error of the callback. A promise
  of the framework (a lifecycle wait, a script evaluation, a locator wait) rejects with an
  error of the framework.
\<close>

datatype error =
    ExpectError "string option" string jsval jsval
  | ToPassError string error
  | FrameworkError string

datatype 'a promise = Fulfilled 'a | Rejected error

fun show_nat :: "nat \<Rightarrow> string" where
  "show_nat n =
     (if n < 10 then [''0123456789'' ! n]
      else show_nat (n div 10) @ [''0123456789'' ! (n mod 10)])"

declare show_nat.simps [simp del]

definition show_int :: "int \<Rightarrow> string" where
  "show_int i = (if i < 0 then ''-'' @ show_nat (nat (- i)) else show_nat (nat i))"

fun show_jsval :: "jsval \<Rightarrow> string" where
  "show_jsval (JBool b) = (if b then ''true'' else ''false'')"
| "show_jsval (JNum i) = show_int i"
| "show_jsval (JStr s) = [CHR 0x22] @ s @ [CHR 0x22]"

text \<open>
  The text of an error, in the layout the repository's tests match against
  (\<^verbatim>\<open>/Expected: "complete"\nReceived: "interactive"/\<close>): the custom message first,
  when there is one, then the matcher, then the expected and the received value.
\<close>

fun message :: "error \<Rightarrow> string" where
  "message (ExpectError custom matcher expected received) =
     (case custom of None \<Rightarrow> [] | Some m \<Rightarrow> m @ [CHR 0x0A, CHR 0x0A])
     @ ''expect(received).'' @ matcher @ ''(expected)'' @ [CHR 0x0A, CHR 0x0A]
     @ (if matcher = ''not.toBe'' then ''Expected: not '' @ show_jsval expected
        else if matcher = ''toBeGreaterThan''
        then ''Expected: > '' @ show_jsval expected @ [CHR 0x0A]
             @ ''Received:   '' @ show_jsval received
        else ''Expected: '' @ show_jsval expected @ [CHR 0x0A]
             @ ''Received: '' @ show_jsval received)"
| "message (ToPassError m e) = m @ [CHR 0x0A, CHR 0x0A] @ message e"
| "message (FrameworkError m) = m"

fun contains :: "string \<Rightarrow> string \<Rightarrow> bool" where
  "contains [] sub = (sub = [])"
| "contains (c # cs) sub = (take (length sub) (c # cs) = sub \<or> contains cs sub)"

section \<open>The matchers\<close>

text \<open>
  \<^verbatim>\<open>expect(received, message).toBe(expected)\<close> compares primitive values for
  identity; \<^verbatim>\<open>.not.toBe\<close> is its negation; \<^verbatim>\<open>toBeGreaterThan\<close> compares numbers.
  Each returns normally or throws.
\<close>

definition expect_toBe :: "string option \<Rightarrow> jsval \<Rightarrow> jsval \<Rightarrow> error + unit" where
  "expect_toBe custom received expected =
     (if received = expected then Inr ()
      else Inl (ExpectError custom ''toBe'' expected received))"

definition expect_not_toBe :: "string option \<Rightarrow> jsval \<Rightarrow> jsval \<Rightarrow> error + unit" where
  "expect_not_toBe custom received expected =
     (if received \<noteq> expected then Inr ()
      else Inl (ExpectError custom ''not.toBe'' expected received))"

definition expect_toBeGreaterThan :: "string option \<Rightarrow> int \<Rightarrow> int \<Rightarrow> error + unit" where
  "expect_toBeGreaterThan custom received expected =
     (if received > expected then Inr ()
      else Inl (ExpectError custom ''toBeGreaterThan'' (JNum expected) (JNum received)))"

text \<open>
  \<^verbatim>\<open>expect(callback, message).toPass()\<close> settles with the callback: it fulfils once the
  callback's promise fulfils, and rejects with the custom message and the callback's error
  when the callback keeps rejecting.
\<close>

definition expect_toPass :: "string \<Rightarrow> 'a promise \<Rightarrow> unit promise" where
  "expect_toPass custom callback =
     (case callback of
        Fulfilled _ \<Rightarrow> Fulfilled ()
      | Rejected e \<Rightarrow> Rejected (ToPassError custom e))"

section \<open>The handles\<close>

text \<open>
  The handles are opaque to the checks; a handle is modelled by what each capability the
  checks use answers, as the stubs of the repository's tests do. A capability that returns
  a promise may reject (a timeout of the framework); \<^verbatim>\<open>page.locator\<close>,
  \<^verbatim>\<open>page.on\<close>, \<^verbatim>\<open>response.ok\<close> and \<^verbatim>\<open>response.status\<close> return at once.
  The body's \<^verbatim>\<open>innerHTML\<close> is kept as its UTF-16 code units, since
  \<^verbatim>\<open>trim\<close> looks at code units beyond Latin-1.
\<close>

record response =
  ok :: bool
  status :: int

record request =
  resourceType :: string

record locator =
  waitFor :: "string \<Rightarrow> nat \<Rightarrow> unit promise"

record page =
  waitForLoadState :: "string \<Rightarrow> unit promise"
  evaluate_readyState :: "string promise"
  eval_innerHTML :: "string \<Rightarrow> nat list promise"
  locator :: "string \<Rightarrow> locator option"
  route :: "string \<Rightarrow> unit promise"
  failedWhileRouting :: "request list"
  failedAfterwards :: "request list"

text \<open>The argument objects of \<^verbatim>\<open>src/interfaces/check\<close>.\<close>

record CheckArgs =
  page :: page

record CheckResponseArgs = CheckArgs +
  response :: response

section \<open>Asynchronous functions\<close>

text \<open>
  What a check does to its page is kept beside its result: the calls it makes on the page,
  in order, and the promises it starts and never awaits (their settlement reaches nobody).
  The calls of a callback are listed where the callback is handed over.
\<close>

datatype call =
    WaitForLoadState string
  | Evaluate
  | Eval string
  | Locator string
  | WaitFor string string nat
  | Route string
  | On string

record effects =
  calls :: "call list"
  floating :: "unit promise list"

type_synonym 'a action = "effects \<Rightarrow> (error + 'a) \<times> effects"

definition ret :: "'a \<Rightarrow> 'a action" where
  "ret x = (\<lambda>s. (Inr x, s))"

definition throw :: "error \<Rightarrow> 'a action" where
  "throw e = (\<lambda>s. (Inl e, s))"

definition bind :: "'a action \<Rightarrow> ('a \<Rightarrow> 'b action) \<Rightarrow> 'b action" where
  "bind m f = (\<lambda>s. case m s of (Inl e, s') \<Rightarrow> (Inl e, s') | (Inr x, s') \<Rightarrow> f x s')"

definition lift :: "error + 'a \<Rightarrow> 'a action" where
  "lift r = (\<lambda>s. (r, s))"

definition invoke :: "call \<Rightarrow> 'a \<Rightarrow> 'a action" where
  "invoke c answer = (\<lambda>s. (Inr answer, s\<lparr>calls := calls s @ [c]\<rparr>))"

definition await :: "'a promise \<Rightarrow> 'a action" where
  "await p = (case p of Fulfilled v \<Rightarrow> ret v | Rejected e \<Rightarrow> throw e)"

definition detach :: "unit promise \<Rightarrow> unit action" where
  "detach p = (\<lambda>s. (Inr (), s\<lparr>floating := floating s @ [p]\<rparr>))"

definition settle :: "error + 'a \<Rightarrow> 'a promise" where
  "settle r = (case r of Inl e \<Rightarrow> Rejected e | Inr v \<Rightarrow> Fulfilled v)"

definition async :: "'a action \<Rightarrow> 'a promise action" where
  "async body = (\<lambda>s. case body s of (r, s') \<Rightarrow> (Inr (settle r), s'))"

record run =
  outcome :: "unit promise"
  effect :: effects

definition start :: "unit action \<Rightarrow> run" where
  "start body =
     (case body \<lparr>calls = [], floating = []\<rparr> of
        (r, s) \<Rightarrow> \<lparr>outcome = settle r, effect = s\<rparr>)"

section \<open>checkPageFound\<close>

definition checkPageFound :: "CheckResponseArgs \<Rightarrow> run" where
  "checkPageFound args =
     start
       (bind (lift (expect_toBe (Some ''Response is not OK'')
                      (JBool (ok (response args))) (JBool True))) (\<lambda>_.
        bind (lift (expect_not_toBe (Some ''Response status is 404'')
                      (JNum (status (response args))) (JNum 404))) (\<lambda>_.
        lift (expect_toBe (Some ''Response status is not 200'')
                (JNum (status (response args))) (JNum 200)))))"

section \<open>checkPageIsLoaded\<close>

definition checkPageIsLoaded :: "CheckArgs \<Rightarrow> run" where
  "checkPageIsLoaded args =
     start
       (bind (invoke (WaitForLoadState ''domcontentloaded'')
                (waitForLoadState (page args) ''domcontentloaded'')) (\<lambda>parsed.
        bind (await parsed) (\<lambda>_.
        bind (invoke (WaitForLoadState ''load'')
                (waitForLoadState (page args) ''load'')) (\<lambda>loaded.
        bind (await loaded) (\<lambda>_.
        bind (invoke Evaluate (evaluate_readyState (page args))) (\<lambda>evaluated.
        bind (await evaluated) (\<lambda>readyState.
        lift (expect_toBe None (JStr readyState) (JStr ''complete'')))))))))"

section \<open>checkBasicContentPresence\<close>

text \<open>
  \<^verbatim>\<open>String.prototype.trim\<close> removes the white space and line terminator code units
  of ECMAScript from both ends.
\<close>

definition js_whitespace :: "nat \<Rightarrow> bool" where
  "js_whitespace c \<longleftrightarrow>
     c = 0x9 \<or> c = 0xA \<or> c = 0xB \<or> c = 0xC \<or> c = 0xD \<or> c = 0x20 \<or> c = 0xA0
     \<or> c = 0x1680 \<or> (0x2000 \<le> c \<and> c \<le> 0x200A) \<or> c = 0x2028 \<or> c = 0x2029
     \<or> c = 0x202F \<or> c = 0x205F \<or> c = 0x3000 \<or> c = 0xFEFF"

definition trim :: "nat list \<Rightarrow> nat list" where
  "trim s = rev (dropWhile js_whitespace (rev (dropWhile js_whitespace s)))"

definition code_units :: "string \<Rightarrow> nat list" where
  "code_units s = map of_char s"

definition checkBasicContentPresence :: "CheckArgs \<Rightarrow> run" where
  "checkBasicContentPresence args =
     start
       (bind (invoke (Eval ''body'') (eval_innerHTML (page args) ''body'')) (\<lambda>evaluated.
        bind (await evaluated) (\<lambda>bodyContent.
        lift (expect_toBeGreaterThan None (int (length (trim bodyContent))) 0))))"

section \<open>checkTransientVisibility\<close>

record CheckTransientVisibilityArgs = CheckArgs +
  selectors :: "string list"
  maxVisibleTime :: "nat option"

definition still_visible :: "string \<Rightarrow> nat \<Rightarrow> string" where
  "still_visible selector t =
     ''Element '' @ selector @ '' is still visible after '' @ show_nat t @ ''ms''"

text \<open>
  The callback handed to \<^verbatim>\<open>expect\<close> calls \<^verbatim>\<open>locator.waitFor\<close> and neither awaits
  nor returns its promise.
\<close>

definition hidden_callback :: "string \<Rightarrow> locator \<Rightarrow> nat \<Rightarrow> unit action" where
  "hidden_callback selector loc t =
     bind (invoke (WaitFor selector ''hidden'' t) (waitFor loc ''hidden'' t)) (\<lambda>waiting.
     detach waiting)"

text \<open>
  The loop over the selectors. A locator that is \<^verbatim>\<open>null\<close> or \<^verbatim>\<open>undefined\<close> is
  \<open>None\<close>. The promise of \<^verbatim>\<open>toPass\<close> is not awaited.
\<close>

fun visibility_loop :: "page \<Rightarrow> nat \<Rightarrow> string list \<Rightarrow> unit action" where
  "visibility_loop pg t [] = ret ()"
| "visibility_loop pg t (selector # rest) =
     bind (invoke (Locator selector) (locator pg selector)) (\<lambda>found.
       case found of
         None \<Rightarrow> visibility_loop pg t rest
       | Some loc \<Rightarrow>
           bind (async (hidden_callback selector loc t)) (\<lambda>callback.
           bind (detach (expect_toPass (still_visible selector t) callback)) (\<lambda>_.
           visibility_loop pg t rest)))"

definition checkTransientVisibility_body :: "CheckTransientVisibilityArgs \<Rightarrow> unit action" where
  "checkTransientVisibility_body args =
     visibility_loop (page args)
       (case maxVisibleTime args of None \<Rightarrow> 0 | Some t \<Rightarrow> t) (selectors args)"

definition checkTransientVisibility :: "CheckTransientVisibilityArgs \<Rightarrow> run" where
  "checkTransientVisibility args = start (checkTransientVisibility_body args)"

section \<open>checkNoCriticalLoadingIndicators\<close>

definition DEFAULT_SPINNER_SELECTOR :: "string list" where
  "DEFAULT_SPINNER_SELECTOR =
     [''.spinner'', ''.loading-spinner'', ''.loading-indicator'', ''.ant-spin'',
      ''.fa-spinner'', ''.fas.fa-spinner'', ''.v-progress-circular'',
      ''.el-loading-spinner'']"

definition DEFAULT_PROGRESS_BAR_SELECTOR :: "string list" where
  "DEFAULT_PROGRESS_BAR_SELECTOR =
     [''.progress-bar'', ''[role='' @ [CHR 0x27] @ ''progressbar'' @ [CHR 0x27] @ '']'',
      ''.mat-progress-bar'', ''.MuiCircularProgress-root'']"

definition DEFAULT_LOADING_SELECTORS :: "string list" where
  "DEFAULT_LOADING_SELECTORS = DEFAULT_SPINNER_SELECTOR @ DEFAULT_PROGRESS_BAR_SELECTOR"

text \<open>
  The comments beside the two lists name the component library each named class belongs to.
\<close>

definition library_classes :: "(string \<times> string) list" where
  "library_classes =
     [(''Ant Design'', ''.ant-spin''),
      (''Font Awesome'', ''.fa-spinner''),
      (''Font Awesome'', ''.fas.fa-spinner''),
      (''Vuetify'', ''.v-progress-circular''),
      (''Element UI'', ''.el-loading-spinner''),
      (''Angular Material'', ''.mat-progress-bar''),
      (''Material UI'', ''.MuiCircularProgress-root'')]"

text \<open>
  The argument object has the page and, optionally, the selectors and the duration. The
  call of \<^verbatim>\<open>checkTransientVisibility\<close> is a statement of its own: its promise is
  neither awaited nor returned.
\<close>

record LoadingIndicatorArgs = CheckArgs +
  selectors_opt :: "string list option"
  maxVisibleTime_opt :: "nat option"

definition checkNoCriticalLoadingIndicators :: "LoadingIndicatorArgs \<Rightarrow> run" where
  "checkNoCriticalLoadingIndicators args =
     start
       (bind (async (checkTransientVisibility_body
                \<lparr>page = page args,
                 selectors = (case selectors_opt args of
                                None \<Rightarrow> DEFAULT_LOADING_SELECTORS | Some s \<Rightarrow> s),
                 maxVisibleTime = Some (case maxVisibleTime_opt args of
                                          None \<Rightarrow> 0 | Some t \<Rightarrow> t)\<rparr>)) (\<lambda>checking.
        detach checking))"

section \<open>checkNoUnhandledNetworkFailures\<close>

text \<open>
  The handler given to \<^verbatim>\<open>page.route\<close> continues every request it is handed, so the
  route changes no request; what the check sees of it is the promise of \<^verbatim>\<open>page.route\<close>.
  The page emits its \<^verbatim>\<open>requestfailed\<close> events while the check is suspended or after
  it has returned, never inside a run of synchronous statements. The only suspension of the
  check is the \<^verbatim>\<open>await\<close> of \<^verbatim>\<open>page.route\<close>: \<open>failedWhileRouting\<close> are the
  requests that fail during it, \<open>failedAfterwards\<close> those that fail once the check has
  returned.
\<close>

record observer =
  listening :: bool
  failedRequests :: "request list"

definition requestfailed_listener :: "request \<Rightarrow> request list \<Rightarrow> request list" where
  "requestfailed_listener req failed =
     (if resourceType req = ''stylesheet'' \<or> resourceType req = ''script''
      then failed @ [req] else failed)"

definition emit :: "request \<Rightarrow> observer \<Rightarrow> observer" where
  "emit req ob =
     (if listening ob
      then ob\<lparr>failedRequests := requestfailed_listener req (failedRequests ob)\<rparr>
      else ob)"

record netrun = run +
  at_assertion :: "observer option"
  afterwards :: observer

definition checkNoUnhandledNetworkFailures :: "CheckArgs \<Rightarrow> netrun" where
  "checkNoUnhandledNetworkFailures args =
     (let routed = route (page args) ''**/*.{css,js}'';
          ob1 = fold emit (failedWhileRouting (page args))
                  \<lparr>listening = False, failedRequests = []\<rparr>
      in case routed of
           Rejected e \<Rightarrow>
             \<lparr>outcome = Rejected e,
              effect = \<lparr>calls = [Route ''**/*.{css,js}''], floating = []\<rparr>,
              at_assertion = None,
              afterwards = fold emit (failedAfterwards (page args)) ob1\<rparr>
         | Fulfilled _ \<Rightarrow>
             (let ob2 = ob1\<lparr>failedRequests := []\<rparr>;
                  ob3 = ob2\<lparr>listening := True\<rparr>;
                  asserted = expect_toBe None
                               (JNum (int (length (failedRequests ob3)))) (JNum 0)
              in \<lparr>outcome = settle asserted,
                  effect = \<lparr>calls = [Route ''**/*.{css,js}'', On ''requestfailed''],
                            floating = []\<rparr>,
                  at_assertion = Some ob3,
                  afterwards = fold emit (failedAfterwards (page args)) ob3\<rparr>))"

section \<open>Sample handles\<close>

text \<open>
  The page of the tests' \<^verbatim>\<open>beforeEach\<close>: every wait resolves, the ready-state is
  \<^verbatim>\<open>complete\<close>, the body has some content and the locator stub answers
  \<^verbatim>\<open>undefined\<close>.
\<close>

definition stub_page :: page where
  "stub_page =
     \<lparr>waitForLoadState = (\<lambda>_. Fulfilled ()),
      evaluate_readyState = Fulfilled ''complete'',
      eval_innerHTML = (\<lambda>_. Fulfilled (code_units ''Some content'')),
      locator = (\<lambda>_. None),
      route = (\<lambda>_. Fulfilled ()),
      failedWhileRouting = [],
      failedAfterwards = []\<rparr>"

text \<open>
  A page whose \<^verbatim>\<open>.loading-spinner\<close> never disappears, so that waiting for it to be
  hidden times out, and whose other elements are hidden; and a page that has a locator for
  the spinner alone.
\<close>

definition stuck :: locator where
  "stuck = \<lparr>waitFor = (\<lambda>_ _. Rejected (FrameworkError ''locator.waitFor: Timeout exceeded''))\<rparr>"

definition hidden :: locator where
  "hidden = \<lparr>waitFor = (\<lambda>_ _. Fulfilled ())\<rparr>"

definition spinner_page :: page where
  "spinner_page =
     stub_page\<lparr>locator :=
       (\<lambda>selector. if selector = ''.loading-spinner'' then Some stuck else Some hidden)\<rparr>"




definition script_request :: request where
  "script_request = \<lparr>resourceType = ''script''\<rparr>"

definition image_request :: request where
  "image_request = \<lparr>resourceType = ''image''\<rparr>"

definition stylesheet_request :: request where
  "stylesheet_request = \<lparr>resourceType = ''stylesheet''\<rparr>"

section \<open>What the loop of checkTransientVisibility leaves behind\<close>

definition loop_calls :: "page \<Rightarrow> nat \<Rightarrow> string list \<Rightarrow> call list" where
  "loop_calls pg t sels =
     concat (map (\<lambda>sel. Locator sel #
        (case locator pg sel of None \<Rightarrow> [] | Some loc \<Rightarrow> [WaitFor sel ''hidden'' t])) sels)"

definition loop_floating :: "page \<Rightarrow> nat \<Rightarrow> string list \<Rightarrow> unit promise list" where
  "loop_floating pg t sels =
     concat (map (\<lambda>sel.
        (case locator pg sel of None \<Rightarrow> []
         | Some loc \<Rightarrow> [waitFor loc ''hidden'' t, Fulfilled ()])) sels)"

section \<open>Auxiliary facts\<close>

lemmas action_defs = start_def bind_def lift_def ret_def throw_def invoke_def await_def
  detach_def settle_def async_def

lemma contains_prefix: "contains (sub @ post) sub"
proof (cases "sub @ post")
  case Nil
  then show ?thesis by simp
next
  case (Cons a list)
  have "take (length sub) (sub @ post) = sub" by simp
  then show ?thesis unfolding Cons by simp
qed

lemma contains_append: "contains (pre @ sub @ post) sub"
proof (induction pre)
  case Nil
  show ?case using contains_prefix by simp
next
  case (Cons c pre)
  then show ?case by simp
qed

lemma message_names_custom: "contains (message (ExpectError (Some m) matcher e r)) m"
proof -
  have "\<exists>post. message (ExpectError (Some m) matcher e r) = [] @ m @ post"
    by simp
  then show ?thesis using contains_append [of "[]" m] by metis
qed

text \<open>Trimming leaves nothing exactly when every code unit is white space.\<close>

lemma trim_empty_iff: "trim s = [] \<longleftrightarrow> (\<forall>c \<in> set s. js_whitespace c)"
proof
  assume "trim s = []"
  then have a: "\<forall>c \<in> set (dropWhile js_whitespace s). js_whitespace c"
    by (simp add: trim_def dropWhile_eq_Nil_conv)
  have "dropWhile js_whitespace s = []"
  proof (rule ccontr)
    assume n: "dropWhile js_whitespace s \<noteq> []"
    then have "\<not> js_whitespace (hd (dropWhile js_whitespace s))"
      by (rule hd_dropWhile)
    moreover have "hd (dropWhile js_whitespace s) \<in> set (dropWhile js_whitespace s)"
      using n by simp
    ultimately show False using a by blast
  qed
  then show "\<forall>c \<in> set s. js_whitespace c"
    by (simp add: dropWhile_eq_Nil_conv)
next
  assume "\<forall>c \<in> set s. js_whitespace c"
  then have d: "dropWhile js_whitespace s = []"
    by (simp add: dropWhile_eq_Nil_conv)
  show "trim s = []"
    unfolding trim_def by (simp only: d rev.simps dropWhile.simps)
qed

text \<open>
  The loop never throws: per selector it asks for the locator and, when there is one,
  starts the wait and the \<^verbatim>\<open>toPass\<close> poll and lets both float.
\<close>

lemma visibility_loop_run:
  "visibility_loop pg t sels s =
     (Inr (), \<lparr>calls = calls s @ loop_calls pg t sels,
               floating = floating s @ loop_floating pg t sels\<rparr>)"
proof (induction sels arbitrary: s)
  case Nil
  show ?case by (simp add: ret_def loop_calls_def loop_floating_def)
next
  case (Cons sel sels)
  show ?case
  proof (cases "locator pg sel")
    case None
    then show ?thesis
      using Cons.IH by (simp add: bind_def invoke_def loop_calls_def loop_floating_def)
  next
    case (Some loc)
    then show ?thesis
      using Cons.IH
      by (simp add: bind_def invoke_def async_def detach_def settle_def hidden_callback_def
          expect_toPass_def loop_calls_def loop_floating_def)
  qed
qed

lemma checkTransientVisibility_run:
  "checkTransientVisibility args =
     \<lparr>outcome = Fulfilled (),
      effect = \<lparr>calls = loop_calls (page args)
                  (case maxVisibleTime args of None \<Rightarrow> 0 | Some t \<Rightarrow> t) (selectors args),
                floating = loop_floating (page args)
                  (case maxVisibleTime args of None \<Rightarrow> 0 | Some t \<Rightarrow> t) (selectors args)\<rparr>\<rparr>"
  by (simp add: checkTransientVisibility_def checkTransientVisibility_body_def start_def
      visibility_loop_run settle_def)

lemma checkNoCriticalLoadingIndicators_run:
  "checkNoCriticalLoadingIndicators args =
     \<lparr>outcome = Fulfilled (),
      effect = \<lparr>calls = loop_calls (page args)
                  (case maxVisibleTime_opt args of None \<Rightarrow> 0 | Some t \<Rightarrow> t)
                  (case selectors_opt args of None \<Rightarrow> DEFAULT_LOADING_SELECTORS | Some s \<Rightarrow> s),
                floating = loop_floating (page args)
                  (case maxVisibleTime_opt args of None \<Rightarrow> 0 | Some t \<Rightarrow> t)
                  (case selectors_opt args of None \<Rightarrow> DEFAULT_LOADING_SELECTORS | Some s \<Rightarrow> s)
                  @ [Fulfilled ()]\<rparr>\<rparr>"
  by (simp add: checkNoCriticalLoadingIndicators_def checkTransientVisibility_body_def start_def
      visibility_loop_run settle_def bind_def async_def detach_def)

section \<open>checkPageFound: the three assertions\<close>

text \<open>
  C1. \<^verbatim>\<open>checkPageFound\<close> succeeds exactly when the response is ok, its status is not 404
  and its status is 200. The assertions run in the order ok, not-404, equals-200, and the
  first one that fails is the error of the check, with the message of its clause: a response
  that is not ok fails with "Response is not OK" whatever its status; an ok response with
  status 404 fails with "Response status is 404"; an ok response with any other status than
  200 fails with "Response status is not 200". Over ok in {true, false} and status in
  {200, 404, 500} the check fails exactly where the conjunction is false.
\<close>

theorem checkPageFound_clauses:
  "(outcome (checkPageFound args) = Fulfilled ()
      \<longleftrightarrow> ok (response args) \<and> status (response args) \<noteq> 404 \<and> status (response args) = 200)
   \<and> (\<not> ok (response args) \<longrightarrow>
        outcome (checkPageFound args) =
          Rejected (ExpectError (Some ''Response is not OK'') ''toBe'' (JBool True) (JBool False))
        \<and> contains
            (message (ExpectError (Some ''Response is not OK'') ''toBe'' (JBool True) (JBool False)))
            ''Response is not OK'')
   \<and> (ok (response args) \<and> status (response args) = 404 \<longrightarrow>
        outcome (checkPageFound args) =
          Rejected (ExpectError (Some ''Response status is 404'') ''not.toBe''
                      (JNum 404) (JNum 404))
        \<and> contains
            (message (ExpectError (Some ''Response status is 404'') ''not.toBe''
                        (JNum 404) (JNum 404)))
            ''Response status is 404'')
   \<and> (ok (response args) \<and> status (response args) \<noteq> 404 \<and> status (response args) \<noteq> 200 \<longrightarrow>
        outcome (checkPageFound args) =
          Rejected (ExpectError (Some ''Response status is not 200'') ''toBe'' (JNum 200)
                      (JNum (status (response args))))
        \<and> contains
            (message (ExpectError (Some ''Response status is not 200'') ''toBe'' (JNum 200)
                        (JNum (status (response args)))))
            ''Response status is not 200'')
   \<and> (\<forall>k \<in> {True, False}. \<forall>st \<in> {200, 404, 500}.
        (outcome (checkPageFound (args\<lparr>response := \<lparr>ok = k, status = st\<rparr>\<rparr>)) \<noteq> Fulfilled ())
          = (\<not> (k \<and> st \<noteq> 404 \<and> st = 200)))"
proof -
  have run:
    "outcome (checkPageFound a) =
       (if \<not> ok (response a)
        then Rejected (ExpectError (Some ''Response is not OK'') ''toBe''
                         (JBool True) (JBool False))
        else if status (response a) = 404
        then Rejected (ExpectError (Some ''Response status is 404'') ''not.toBe''
                         (JNum 404) (JNum 404))
        else if status (response a) \<noteq> 200
        then Rejected (ExpectError (Some ''Response status is not 200'') ''toBe'' (JNum 200)
                         (JNum (status (response a))))
        else Fulfilled ())" for a
    by (simp add: checkPageFound_def action_defs expect_toBe_def expect_not_toBe_def)
  show ?thesis
    unfolding run using message_names_custom by simp
qed

theorem checkPageFound_clauses_witness:
  "outcome (checkPageFound \<lparr>page = stub_page, response = \<lparr>ok = False, status = 404\<rparr>\<rparr>)
     = Rejected (ExpectError (Some ''Response is not OK'') ''toBe'' (JBool True) (JBool False))
   \<and> outcome (checkPageFound \<lparr>page = stub_page, response = \<lparr>ok = True, status = 404\<rparr>\<rparr>)
     = Rejected (ExpectError (Some ''Response status is 404'') ''not.toBe'' (JNum 404) (JNum 404))
   \<and> outcome (checkPageFound \<lparr>page = stub_page, response = \<lparr>ok = True, status = 204\<rparr>\<rparr>)
     = Rejected (ExpectError (Some ''Response status is not 200'') ''toBe'' (JNum 200) (JNum 204))
   \<and> outcome (checkPageFound \<lparr>page = stub_page, response = \<lparr>ok = True, status = 200\<rparr>\<rparr>)
     = Fulfilled ()
   \<and> outcome (checkPageFound \<lparr>page = stub_page, response = \<lparr>ok = False, status = 500\<rparr>\<rparr>)
     \<noteq> Fulfilled ()"
  using
    checkPageFound_clauses
      [of "\<lparr>page = stub_page, response = \<lparr>ok = False, status = 404\<rparr>\<rparr>"]
    checkPageFound_clauses
      [of "\<lparr>page = stub_page, response = \<lparr>ok = True, status = 404\<rparr>\<rparr>"]
    checkPageFound_clauses
      [of "\<lparr>page = stub_page, response = \<lparr>ok = True, status = 204\<rparr>\<rparr>"]
    checkPageFound_clauses
      [of "\<lparr>page = stub_page, response = \<lparr>ok = True, status = 200\<rparr>\<rparr>"]
  by simp

text \<open>
  C9. The result of \<^verbatim>\<open>checkPageFound\<close> depends on the response's \<^verbatim>\<open>ok()\<close> and
  \<^verbatim>\<open>status()\<close> alone: two argument objects whose responses agree on both give the same
  result (the same success, or the same failing assertion with the same message), whatever
  their pages are.
\<close>

theorem checkPageFound_ignores_page:
  assumes "ok (response a) = ok (response b)"
    and "status (response a) = status (response b)"
  shows "checkPageFound a = checkPageFound b"
  using assms by (simp add: checkPageFound_def)

theorem checkPageFound_ignores_page_witness:
  "page \<lparr>page = stub_page, response = \<lparr>ok = True, status = 404\<rparr>\<rparr>
     \<noteq> page \<lparr>page = spinner_page, response = \<lparr>ok = True, status = 404\<rparr>\<rparr>
   \<and> checkPageFound \<lparr>page = stub_page, response = \<lparr>ok = True, status = 404\<rparr>\<rparr>
     = checkPageFound \<lparr>page = spinner_page, response = \<lparr>ok = True, status = 404\<rparr>\<rparr>"
proof -
  have "locator stub_page ''.spinner'' \<noteq> locator spinner_page ''.spinner''"
    by (simp add: stub_page_def spinner_page_def)
  then have "stub_page \<noteq> spinner_page" by auto
  then show ?thesis
    using checkPageFound_ignores_page
      [of "\<lparr>page = stub_page, response = \<lparr>ok = True, status = 404\<rparr>\<rparr>"
          "\<lparr>page = spinner_page, response = \<lparr>ok = True, status = 404\<rparr>\<rparr>"]
    by simp
qed

section \<open>checkPageIsLoaded: two waits, then the ready-state\<close>

text \<open>
  C4. \<^verbatim>\<open>checkPageIsLoaded\<close> waits for the load state \<^verbatim>\<open>domcontentloaded\<close> first
  and for \<^verbatim>\<open>load\<close> second, and reads the ready-state only after both: when the first
  wait rejects nothing else is called, when the second rejects the ready-state is not read.
  After both waits, a ready-state \<^verbatim>\<open>complete\<close> makes the check succeed, and every
  other ready-state makes it fail with the error of \<^verbatim>\<open>toBe\<close> whose text contains both
  the expected \<^verbatim>\<open>complete\<close> and the ready-state that was read.
\<close>

theorem checkPageIsLoaded_order:
  "(waitForLoadState (page args) ''domcontentloaded'' = Rejected e \<longrightarrow>
      checkPageIsLoaded args =
        \<lparr>outcome = Rejected e,
         effect = \<lparr>calls = [WaitForLoadState ''domcontentloaded''], floating = []\<rparr>\<rparr>)
   \<and> (waitForLoadState (page args) ''domcontentloaded'' = Fulfilled ()
        \<and> waitForLoadState (page args) ''load'' = Rejected e \<longrightarrow>
      checkPageIsLoaded args =
        \<lparr>outcome = Rejected e,
         effect = \<lparr>calls = [WaitForLoadState ''domcontentloaded'', WaitForLoadState ''load''],
                   floating = []\<rparr>\<rparr>)
   \<and> (waitForLoadState (page args) ''domcontentloaded'' = Fulfilled ()
        \<and> waitForLoadState (page args) ''load'' = Fulfilled ()
        \<and> evaluate_readyState (page args) = Fulfilled readyState \<longrightarrow>
      calls (effect (checkPageIsLoaded args)) =
        [WaitForLoadState ''domcontentloaded'', WaitForLoadState ''load'', Evaluate]
      \<and> (readyState = ''complete'' \<longrightarrow> outcome (checkPageIsLoaded args) = Fulfilled ())
      \<and> (readyState \<noteq> ''complete'' \<longrightarrow>
           outcome (checkPageIsLoaded args) =
             Rejected (ExpectError None ''toBe'' (JStr ''complete'') (JStr readyState))
           \<and> contains (message (ExpectError None ''toBe'' (JStr ''complete'') (JStr readyState)))
               ''complete''
           \<and> contains (message (ExpectError None ''toBe'' (JStr ''complete'') (JStr readyState)))
               readyState))"
proof -
  let ?err = "ExpectError None ''toBe'' (JStr ''complete'') (JStr readyState)"
  have m1: "message ?err =
      (''expect(received).toBe(expected)'' @ [CHR 0x0A, CHR 0x0A] @ ''Expected: '' @ [CHR 0x22])
      @ ''complete''
      @ ([CHR 0x22, CHR 0x0A] @ ''Received: '' @ [CHR 0x22] @ readyState @ [CHR 0x22])"
    by simp
  have c1: "contains (message ?err) ''complete''"
    unfolding m1 by (rule contains_append)
  have m2: "message ?err =
      (''expect(received).toBe(expected)'' @ [CHR 0x0A, CHR 0x0A] @ ''Expected: '' @ [CHR 0x22]
        @ ''complete'' @ [CHR 0x22, CHR 0x0A] @ ''Received: '' @ [CHR 0x22])
      @ readyState @ [CHR 0x22]"
    by simp
  have c2: "contains (message ?err) readyState"
    unfolding m2 by (rule contains_append)
  show ?thesis
    using c1 c2 by (simp add: checkPageIsLoaded_def action_defs expect_toBe_def)
qed

theorem checkPageIsLoaded_order_witness:
  "checkPageIsLoaded
     \<lparr>page = stub_page\<lparr>waitForLoadState := \<lambda>_. Rejected (FrameworkError ''Timeout'')\<rparr>\<rparr>
     = \<lparr>outcome = Rejected (FrameworkError ''Timeout''),
        effect = \<lparr>calls = [WaitForLoadState ''domcontentloaded''], floating = []\<rparr>\<rparr>
   \<and> checkPageIsLoaded
       \<lparr>page = stub_page\<lparr>waitForLoadState :=
          \<lambda>state. if state = ''load'' then Rejected (FrameworkError ''Timeout'')
                   else Fulfilled ()\<rparr>\<rparr>
     = \<lparr>outcome = Rejected (FrameworkError ''Timeout''),
        effect = \<lparr>calls = [WaitForLoadState ''domcontentloaded'', WaitForLoadState ''load''],
                  floating = []\<rparr>\<rparr>
   \<and> outcome (checkPageIsLoaded \<lparr>page = stub_page\<rparr>) = Fulfilled ()
   \<and> outcome (checkPageIsLoaded
        \<lparr>page = stub_page\<lparr>evaluate_readyState := Fulfilled ''interactive''\<rparr>\<rparr>)
     = Rejected (ExpectError None ''toBe'' (JStr ''complete'') (JStr ''interactive''))
   \<and> contains (message (ExpectError None ''toBe'' (JStr ''complete'') (JStr ''interactive'')))
       ''interactive''"
  using
    checkPageIsLoaded_order
      [of "\<lparr>page = stub_page\<lparr>waitForLoadState := \<lambda>_. Rejected (FrameworkError ''Timeout'')\<rparr>\<rparr>"
          "FrameworkError ''Timeout''" "''complete''"]
    checkPageIsLoaded_order
      [of "\<lparr>page = stub_page\<lparr>waitForLoadState :=
             \<lambda>state. if state = ''load'' then Rejected (FrameworkError ''Timeout'')
                      else Fulfilled ()\<rparr>\<rparr>"
          "FrameworkError ''Timeout''" "''complete''"]
    checkPageIsLoaded_order
      [of "\<lparr>page = stub_page\<rparr>" "FrameworkError ''Timeout''" "''complete''"]
    checkPageIsLoaded_order
      [of "\<lparr>page = stub_page\<lparr>evaluate_readyState := Fulfilled ''interactive''\<rparr>\<rparr>"
          "FrameworkError ''Timeout''" "''interactive''"]
  by (simp add: stub_page_def)

section \<open>checkBasicContentPresence: the trimmed body\<close>

text \<open>
  C5. When the body's markup has been read, \<^verbatim>\<open>checkBasicContentPresence\<close> succeeds
  exactly when the trimmed markup has a length greater than 0. On any page whose body is
  the three spaces \<^verbatim>\<open>"   "\<close> it fails (0 is not greater than 0), and on any page whose
  body is \<^verbatim>\<open><div>Hello</div>\<close> it succeeds.
\<close>

theorem checkBasicContentPresence_iff:
  "(eval_innerHTML (page args) ''body'' = Fulfilled bodyContent \<longrightarrow>
      (outcome (checkBasicContentPresence args) = Fulfilled ())
        = (0 < length (trim bodyContent)))
   \<and> outcome (checkBasicContentPresence
        \<lparr>page = pg\<lparr>eval_innerHTML := \<lambda>_. Fulfilled (code_units ''   '')\<rparr>\<rparr>)
       = Rejected (ExpectError None ''toBeGreaterThan'' (JNum 0) (JNum 0))
   \<and> outcome (checkBasicContentPresence
        \<lparr>page = pg\<lparr>eval_innerHTML := \<lambda>_. Fulfilled (code_units ''<div>Hello</div>'')\<rparr>\<rparr>)
       = Fulfilled ()"
  by (simp add: checkBasicContentPresence_def action_defs expect_toBeGreaterThan_def
      trim_def code_units_def js_whitespace_def)

theorem checkBasicContentPresence_iff_witness:
  "eval_innerHTML (page \<lparr>page = stub_page\<rparr>) ''body'' = Fulfilled (code_units ''Some content'')
   \<and> 0 < length (trim (code_units ''Some content''))
   \<and> outcome (checkBasicContentPresence \<lparr>page = stub_page\<rparr>) = Fulfilled ()"
  using checkBasicContentPresence_iff
    [of "\<lparr>page = stub_page\<rparr>" "code_units ''Some content''" stub_page]
  by (simp add: stub_page_def trim_def code_units_def js_whitespace_def)

section \<open>checkTransientVisibility and checkNoCriticalLoadingIndicators\<close>




text \<open>
  C7. With no selectors and no duration given, \<^verbatim>\<open>checkNoCriticalLoadingIndicators\<close>
  has the outcome of \<^verbatim>\<open>checkTransientVisibility\<close> on the same page with
  \<^verbatim>\<open>DEFAULT_LOADING_SELECTORS\<close> and the duration 0 (the same success, or the same error),
  and makes the same calls on the page; it leaves one more promise floating, that of
  \<^verbatim>\<open>checkTransientVisibility\<close> itself.
\<close>

theorem default_arguments_same_as_transient:
  "outcome (checkNoCriticalLoadingIndicators
      \<lparr>page = pg, selectors_opt = None, maxVisibleTime_opt = None\<rparr>)
     = outcome (checkTransientVisibility
         \<lparr>page = pg, selectors = DEFAULT_LOADING_SELECTORS, maxVisibleTime = Some 0\<rparr>)
   \<and> calls (effect (checkNoCriticalLoadingIndicators
      \<lparr>page = pg, selectors_opt = None, maxVisibleTime_opt = None\<rparr>))
     = calls (effect (checkTransientVisibility
         \<lparr>page = pg, selectors = DEFAULT_LOADING_SELECTORS, maxVisibleTime = Some 0\<rparr>))
   \<and> floating (effect (checkNoCriticalLoadingIndicators
      \<lparr>page = pg, selectors_opt = None, maxVisibleTime_opt = None\<rparr>))
     = floating (effect (checkTransientVisibility
         \<lparr>page = pg, selectors = DEFAULT_LOADING_SELECTORS, maxVisibleTime = Some 0\<rparr>))
       @ [outcome (checkTransientVisibility
         \<lparr>page = pg, selectors = DEFAULT_LOADING_SELECTORS, maxVisibleTime = Some 0\<rparr>)]"
  by (simp add: checkTransientVisibility_run checkNoCriticalLoadingIndicators_run)

text \<open>
  C8. \<^verbatim>\<open>DEFAULT_LOADING_SELECTORS\<close> is the spinner selectors followed by the progress-bar
  selectors; every class that the source's comments attribute to a component library is in
  it, and those libraries are at least four; \<^verbatim>\<open>checkNoCriticalLoadingIndicators\<close> uses
  this list when no selectors are given and the duration 0 when no duration is given.
\<close>

theorem default_selectors_and_duration:
  "DEFAULT_LOADING_SELECTORS = DEFAULT_SPINNER_SELECTOR @ DEFAULT_PROGRESS_BAR_SELECTOR
   \<and> filter (\<lambda>c. c \<notin> set DEFAULT_LOADING_SELECTORS) (map snd library_classes) = []
   \<and> 4 \<le> length (remdups (map fst library_classes))
   \<and> checkNoCriticalLoadingIndicators \<lparr>page = pg, selectors_opt = None, maxVisibleTime_opt = t\<rparr>
     = checkNoCriticalLoadingIndicators
         \<lparr>page = pg, selectors_opt = Some DEFAULT_LOADING_SELECTORS, maxVisibleTime_opt = t\<rparr>
   \<and> checkNoCriticalLoadingIndicators \<lparr>page = pg, selectors_opt = sels, maxVisibleTime_opt = None\<rparr>
     = checkNoCriticalLoadingIndicators
         \<lparr>page = pg, selectors_opt = sels, maxVisibleTime_opt = Some 0\<rparr>"
  by (simp add: checkNoCriticalLoadingIndicators_def DEFAULT_LOADING_SELECTORS_def
      DEFAULT_SPINNER_SELECTOR_def DEFAULT_PROGRESS_BAR_SELECTOR_def library_classes_def)

text \<open>
  C2, at the input of the test "should fail if loading-spinner does not disappear": the
  spinner stays visible, so waiting 3000 ms for it to be hidden times out.
  \<^verbatim>\<open>checkTransientVisibility\<close> succeeds all the same. The rejected wait floats, and the
  \<^verbatim>\<open>toPass\<close> poll, which floats too, is fulfilled, since its callback does not await the
  wait.
\<close>

theorem still_visible_spinner_passes:
  "waitFor stuck ''hidden'' 3000 = Rejected (FrameworkError ''locator.waitFor: Timeout exceeded'')
   \<and> checkTransientVisibility
       \<lparr>page = spinner_page, selectors = [''.loading-spinner''], maxVisibleTime = Some 3000\<rparr>
     = \<lparr>outcome = Fulfilled (),
        effect =
          \<lparr>calls = [Locator ''.loading-spinner'', WaitFor ''.loading-spinner'' ''hidden'' 3000],
           floating = [Rejected (FrameworkError ''locator.waitFor: Timeout exceeded''),
                       Fulfilled ()]\<rparr>\<rparr>"
  by (simp add: checkTransientVisibility_def checkTransientVisibility_body_def hidden_callback_def
      expect_toPass_def action_defs spinner_page_def stub_page_def stuck_def)

section \<open>checkNoUnhandledNetworkFailures: the assertion and the listener\<close>

text \<open>
  C10. For every page and all requests that fail while the check is suspended or after it,
  the collection is empty when its length is asserted, with the listener just subscribed:
  the assertion passes, and the outcome of \<^verbatim>\<open>checkNoUnhandledNetworkFailures\<close> is that
  of \<^verbatim>\<open>page.route\<close> (when routing rejects, the assertion is not reached).
\<close>

theorem assertion_sees_empty_collection:
  "outcome (checkNoUnhandledNetworkFailures args) = route (page args) ''**/*.{css,js}''
   \<and> at_assertion (checkNoUnhandledNetworkFailures args) =
       (case route (page args) ''**/*.{css,js}'' of
          Fulfilled _ \<Rightarrow> Some \<lparr>listening = True, failedRequests = []\<rparr>
        | Rejected _ \<Rightarrow> None)"
proof (cases "route (page args) ''**/*.{css,js}''")
  case (Fulfilled u)
  then show ?thesis
    by (simp add: checkNoUnhandledNetworkFailures_def Let_def expect_toBe_def settle_def)
next
  case (Rejected e)
  then show ?thesis
    by (simp add: checkNoUnhandledNetworkFailures_def Let_def)
qed

text \<open>
  C3, at one failed request of type \<^verbatim>\<open>script\<close>: whether the request fails while
  \<^verbatim>\<open>page.route\<close> is pending or after the check has returned,
  \<^verbatim>\<open>checkNoUnhandledNetworkFailures\<close> succeeds. A request that fails afterwards reaches
  the listener and is collected; no assertion reads the collection again. The listener
  itself keeps the requests of type \<^verbatim>\<open>stylesheet\<close> and \<^verbatim>\<open>script\<close> and drops a
  request of type \<^verbatim>\<open>image\<close>, and the check succeeds when an image fails and when
  nothing fails.
\<close>

theorem failed_script_request_passes:
  "outcome (checkNoUnhandledNetworkFailures
      \<lparr>page = stub_page\<lparr>failedAfterwards := [script_request]\<rparr>\<rparr>) = Fulfilled ()
   \<and> failedRequests (afterwards (checkNoUnhandledNetworkFailures
      \<lparr>page = stub_page\<lparr>failedAfterwards := [script_request]\<rparr>\<rparr>)) = [script_request]
   \<and> outcome (checkNoUnhandledNetworkFailures
      \<lparr>page = stub_page\<lparr>failedWhileRouting := [script_request]\<rparr>\<rparr>) = Fulfilled ()
   \<and> failedRequests (afterwards (checkNoUnhandledNetworkFailures
      \<lparr>page = stub_page\<lparr>failedWhileRouting := [script_request]\<rparr>\<rparr>)) = []
   \<and> outcome (checkNoUnhandledNetworkFailures
      \<lparr>page = stub_page\<lparr>failedAfterwards := [image_request]\<rparr>\<rparr>) = Fulfilled ()
   \<and> failedRequests (afterwards (checkNoUnhandledNetworkFailures
      \<lparr>page = stub_page\<lparr>failedAfterwards :=
         [image_request, stylesheet_request, script_request]\<rparr>\<rparr>))
     = [stylesheet_request, script_request]
   \<and> outcome (checkNoUnhandledNetworkFailures \<lparr>page = stub_page\<rparr>) = Fulfilled ()"
  by (simp add: checkNoUnhandledNetworkFailures_def Let_def expect_toBe_def settle_def
      emit_def requestfailed_listener_def stub_page_def script_request_def image_request_def
      stylesheet_request_def)

end
